theory Spec2Isabelle
  imports Complex_Main "HOL-Library.Sublist"
begin

section \<open>Fear and Greed Index: derived metrics\<close>

text \<open>
  Scores are Python numbers (the class documents \<open>score : float\<close>, the helpers are
  annotated \<open>score: float\<close>); they are only ever compared with integer thresholds, so a
  score is embedded as a \<open>real\<close>. Strings are \<open>char\<close> lists; a literal of the source
  that is not ASCII is written as the bytes it has in the source file.
\<close>

subsection \<open>Trading signal (api\_server.py, fgi\_cli.py)\<close>

text \<open>
  \<open>get_trading_signal\<close> of api\_server.py: the pair \<open>(signal, recommendation)\<close> chosen
  by the \<open>if\<close>/\<open>elif\<close> chain on \<open>fgi.score\<close>.
\<close>

definition get_trading_signal :: "real \<Rightarrow> string \<times> string" where
  "get_trading_signal score =
     (if score < 20 then (''STRONG_BUY'', ''Extreme fear - potential buying opportunity'')
      else if score < 40 then (''BUY'', ''Fear in market - consider accumulating'')
      else if score < 60 then (''HOLD'', ''Neutral sentiment - maintain positions'')
      else if score < 80 then (''SELL'', ''Greed in market - consider taking profits'')
      else (''STRONG_SELL'', ''Extreme greed - potential market top''))"

text \<open>
  \<open>signal\<close> of fgi\_cli.py: the same chain, choosing \<open>(signal, recommendation, color,
  emoji)\<close>; the panel shows the label with a space where the REST adapter has an
  underscore.
\<close>

definition signal :: "real \<Rightarrow> string \<times> string \<times> string \<times> string" where
  "signal score =
     (if score < 20 then
        (''STRONG BUY'', ''Extreme fear - potential buying opportunity'', ''green'',
         [CHR 0xC3, CHR 0xB0, CHR 0xC5, CHR 0xB8, CHR 0xC5, CHR 0xA1, CHR 0xE2, CHR 0x82, CHR 0xAC])
      else if score < 40 then
        (''BUY'', ''Fear in market - consider accumulating'', ''green'',
         [CHR 0xC3, CHR 0xB0, CHR 0xC5, CHR 0xB8, CHR 0xE2, CHR 0x80, CHR 0x9C, CHR 0xCB, CHR 0x86])
      else if score < 60 then
        (''HOLD'', ''Neutral sentiment - maintain positions'', ''yellow'',
         [CHR 0xC3, CHR 0xA2, CHR 0xC2, CHR 0xB8, CHR 0xC3, CHR 0xAF, CHR 0xC2, CHR 0xB8])
      else if score < 80 then
        (''SELL'', ''Greed in market - consider taking profits'', ''orange1'',
         [CHR 0xC3, CHR 0xB0, CHR 0xC5, CHR 0xB8, CHR 0xE2, CHR 0x80, CHR 0x9C, CHR 0xE2, CHR 0x80, CHR 0xB0])
      else
        (''STRONG SELL'', ''Extreme greed - potential market top'', ''red'',
         [CHR 0xC3, CHR 0xB0, CHR 0xC5, CHR 0xB8, CHR 0xE2, CHR 0x80, CHR 0xBA, CHR 0xE2, CHR 0x80, CHR 0x98]))"

subsection \<open>Severity banding (fgi\_cli.py, app.py, CNNFearAndGreedIndex.py)\<close>

text \<open>\<open>get_color_for_score\<close> of fgi\_cli.py (rich colour names).\<close>

definition get_color_for_score :: "real \<Rightarrow> string" where
  "get_color_for_score score =
     (if score < 25 then ''red''
      else if score < 45 then ''orange1''
      else if score < 55 then ''yellow''
      else if score < 75 then ''green''
      else ''dark_green'')"

text \<open>\<open>get_emoji_for_score\<close> of fgi\_cli.py.\<close>

definition get_emoji_for_score :: "real \<Rightarrow> string" where
  "get_emoji_for_score score =
     (if score < 25 then
        [CHR 0xC3, CHR 0xB0, CHR 0xC5, CHR 0xB8, CHR 0xE2, CHR 0x80, CHR 0x9D, CHR 0xC2, CHR 0xB4]
      else if score < 45 then
        [CHR 0xC3, CHR 0xB0, CHR 0xC5, CHR 0xB8, CHR 0xC5, CHR 0xB8, CHR 0xC2, CHR 0xA0]
      else if score < 55 then
        [CHR 0xC3, CHR 0xB0, CHR 0xC5, CHR 0xB8, CHR 0xC5, CHR 0xB8, CHR 0xC2, CHR 0xA1]
      else if score < 75 then
        [CHR 0xC3, CHR 0xB0, CHR 0xC5, CHR 0xB8, CHR 0xC5, CHR 0xB8, CHR 0xC2, CHR 0xA2]
      else
        [CHR 0xC3, CHR 0xB0, CHR 0xC5, CHR 0xB8, CHR 0xE2, CHR 0x80, CHR 0x99, CHR 0xC5, CHR 0xA1])"

text \<open>\<open>get_color_for_score\<close> of app.py (hex colours of the web dashboard).\<close>

definition app_get_color_for_score :: "real \<Rightarrow> string" where
  "app_get_color_for_score score =
     (if score < 25 then ''#8B0000''
      else if score < 45 then ''#FF4500''
      else if score < 55 then ''#FFD700''
      else if score < 75 then ''#32CD32''
      else ''#006400'')"

text \<open>
  The colour loop of \<open>plot_all_indicators\<close> (and, verbatim, of \<open>plot_all_charts\<close>) in
  CNNFearAndGreedIndex.py: one colour appended per score, in order.
\<close>

definition bar_color :: "real \<Rightarrow> string" where
  "bar_color score =
     (if score < 25 then ''#8B0000''
      else if score < 45 then ''#FF4500''
      else if score < 55 then ''#FFD700''
      else if score < 75 then ''#90EE90''
      else ''#006400'')"

fun plot_all_indicators_colors :: "real list \<Rightarrow> string list \<Rightarrow> string list" where
  "plot_all_indicators_colors [] colors = colors"
| "plot_all_indicators_colors (score # scores) colors =
     plot_all_indicators_colors scores (colors @ [bar_color score])"

text \<open>
  The severity bands as the specification words them: extreme-fear below 25, fear below
  45, neutral below 55, greed below 75, extreme-greed from 75 on.
\<close>

datatype severity = ExtremeFear | Fear | Neutral | Greed | ExtremeGreed

definition severity_band_spec :: "real \<Rightarrow> severity" where
  "severity_band_spec s =
     (if s < 25 then ExtremeFear
      else if 25 \<le> s \<and> s < 45 then Fear
      else if 45 \<le> s \<and> s < 55 then Neutral
      else if 55 \<le> s \<and> s < 75 then Greed
      else ExtremeGreed)"

text \<open>What each front-end shows for a band: its constants, read off the source.\<close>

fun cli_color_of :: "severity \<Rightarrow> string" where
  "cli_color_of ExtremeFear = ''red''"
| "cli_color_of Fear = ''orange1''"
| "cli_color_of Neutral = ''yellow''"
| "cli_color_of Greed = ''green''"
| "cli_color_of ExtremeGreed = ''dark_green''"

fun cli_emoji_of :: "severity \<Rightarrow> string" where
  "cli_emoji_of ExtremeFear =
     [CHR 0xC3, CHR 0xB0, CHR 0xC5, CHR 0xB8, CHR 0xE2, CHR 0x80, CHR 0x9D, CHR 0xC2, CHR 0xB4]"
| "cli_emoji_of Fear =
     [CHR 0xC3, CHR 0xB0, CHR 0xC5, CHR 0xB8, CHR 0xC5, CHR 0xB8, CHR 0xC2, CHR 0xA0]"
| "cli_emoji_of Neutral =
     [CHR 0xC3, CHR 0xB0, CHR 0xC5, CHR 0xB8, CHR 0xC5, CHR 0xB8, CHR 0xC2, CHR 0xA1]"
| "cli_emoji_of Greed =
     [CHR 0xC3, CHR 0xB0, CHR 0xC5, CHR 0xB8, CHR 0xC5, CHR 0xB8, CHR 0xC2, CHR 0xA2]"
| "cli_emoji_of ExtremeGreed =
     [CHR 0xC3, CHR 0xB0, CHR 0xC5, CHR 0xB8, CHR 0xE2, CHR 0x80, CHR 0x99, CHR 0xC5, CHR 0xA1]"

fun app_color_of :: "severity \<Rightarrow> string" where
  "app_color_of ExtremeFear = ''#8B0000''"
| "app_color_of Fear = ''#FF4500''"
| "app_color_of Neutral = ''#FFD700''"
| "app_color_of Greed = ''#32CD32''"
| "app_color_of ExtremeGreed = ''#006400''"

fun chart_color_of :: "severity \<Rightarrow> string" where
  "chart_color_of ExtremeFear = ''#8B0000''"
| "chart_color_of Fear = ''#FF4500''"
| "chart_color_of Neutral = ''#FFD700''"
| "chart_color_of Greed = ''#90EE90''"
| "chart_color_of ExtremeGreed = ''#006400''"

section \<open>Raw documents and the Python operations used on them\<close>

text \<open>
  The raw document is whatever \<open>response.json()\<close> returned: a JSON value. An object is
  an association list in document order, looked up with \<open>map_of\<close>; \<open>None\<close> is
  \<open>JNull\<close>. A number is a \<open>real\<close>: neither the rounding nor the range of Python's
  floats is part of the model.
\<close>

datatype json =
    JNull
  | JBool bool
  | JNum real
  | JStr string
  | JArr "json list"
  | JObj "(string \<times> json) list"

datatype py_error = AttributeError | TypeError | ValueError | KeyError | OverflowError | OSError

definition bind_err :: "'e + 'a \<Rightarrow> ('a \<Rightarrow> 'e + 'b) \<Rightarrow> 'e + 'b" where
  "bind_err m f = (case m of Inl e \<Rightarrow> Inl e | Inr x \<Rightarrow> f x)"

text \<open>Truth value of a Python object in \<open>if x:\<close>.\<close>

fun truthy :: "json \<Rightarrow> bool" where
  "truthy JNull = False"
| "truthy (JBool b) = b"
| "truthy (JNum r) = (r \<noteq> 0)"
| "truthy (JStr s) = (s \<noteq> [])"
| "truthy (JArr xs) = (xs \<noteq> [])"
| "truthy (JObj kvs) = (kvs \<noteq> [])"

text \<open>
  \<open>x.get(key, default)\<close>: only a dict has the method; on any other object the attribute
  lookup raises AttributeError.
\<close>

fun dict_get :: "json \<Rightarrow> string \<Rightarrow> json \<Rightarrow> py_error + json" where
  "dict_get (JObj kvs) k d = Inr (case map_of kvs k of None \<Rightarrow> d | Some v \<Rightarrow> v)"
| "dict_get JNull k d = Inl AttributeError"
| "dict_get (JBool b) k d = Inl AttributeError"
| "dict_get (JNum r) k d = Inl AttributeError"
| "dict_get (JStr s) k d = Inl AttributeError"
| "dict_get (JArr xs) k d = Inl AttributeError"

text \<open>\<open>table[key]\<close> on the class constant \<open>_INDICATOR_MAP\<close>: KeyError on a missing key.\<close>

definition dict_index :: "(string \<times> string) list \<Rightarrow> string \<Rightarrow> py_error + string" where
  "dict_index table k = (case map_of table k of None \<Rightarrow> Inl KeyError | Some v \<Rightarrow> Inr v)"

text \<open>
  \<open>s.replace(old, new)\<close> on a \<open>str\<close>: the occurrences of \<open>old\<close> are replaced from the
  left, without overlap; an empty \<open>old\<close> matches before every character and at the end.
\<close>

function replace :: "string \<Rightarrow> string \<Rightarrow> string \<Rightarrow> string" where
  "replace old new s =
     (if old = [] then new @ concat (map (\<lambda>c. c # new) s)
      else if s = [] then []
      else if prefix old s then new @ replace old new (drop (length old) s)
      else hd s # replace old new (tl s))"
  by pat_completeness auto
termination
  by (relation "measure (\<lambda>(old, new, s). length s)") auto

declare replace.simps [simp del]

text \<open>\<open>x.replace(old, new)\<close> on an arbitrary object: only \<open>str\<close> has the method.\<close>

fun py_replace :: "json \<Rightarrow> string \<Rightarrow> string \<Rightarrow> py_error + string" where
  "py_replace (JStr s) old new = Inr (replace old new s)"
| "py_replace JNull old new = Inl AttributeError"
| "py_replace (JBool b) old new = Inl AttributeError"
| "py_replace (JNum r) old new = Inl AttributeError"
| "py_replace (JArr xs) old new = Inl AttributeError"
| "py_replace (JObj kvs) old new = Inl AttributeError"

text \<open>\<open>x / 1000\<close>: numbers (a \<open>bool\<close> is an \<open>int\<close>) divide, anything else is a TypeError.\<close>

fun py_div_1000 :: "json \<Rightarrow> py_error + real" where
  "py_div_1000 (JNum r) = Inr (r / 1000)"
| "py_div_1000 (JBool b) = Inr ((if b then 1 else 0) / 1000)"
| "py_div_1000 JNull = Inl TypeError"
| "py_div_1000 (JStr s) = Inl TypeError"
| "py_div_1000 (JArr xs) = Inl TypeError"
| "py_div_1000 (JObj kvs) = Inl TypeError"

text \<open>
  \<open>s.lower()\<close> and \<open>a in b\<close> on strings. A Python \<open>str\<close> is modelled by its UTF-8
  bytes. Lower-casing maps the ASCII letters \<open>A\<close>..\<open>Z\<close> to \<open>a\<close>..\<open>z\<close> and leaves
  the other ASCII characters alone. What \<open>str.lower()\<close> makes of a character outside
  ASCII is decided by the Unicode tables of the interpreter (it can be an ASCII letter:
  the Kelvin sign becomes \<open>k\<close>; it can depend on the neighbours: the Greek capital
  sigma), so it is the parameter \<open>unicode_lower\<close>: the bytes that the non-ASCII byte at
  position \<open>i\<close> of the string \<open>s\<close> contributes to the result. Containment is containment
  of byte sequences, which for UTF-8 is containment of character sequences.
\<close>

definition is_ascii :: "char \<Rightarrow> bool" where
  "is_ascii c = (\<not> digit7 c)"

definition ascii_lower :: "char \<Rightarrow> char" where
  "ascii_lower c =
     (case map_of (zip ''ABCDEFGHIJKLMNOPQRSTUVWXYZ'' ''abcdefghijklmnopqrstuvwxyz'') c of
        None \<Rightarrow> c
      | Some l \<Rightarrow> l)"

fun lower_from :: "(string \<Rightarrow> nat \<Rightarrow> string) \<Rightarrow> string \<Rightarrow> nat \<Rightarrow> string \<Rightarrow> string" where
  "lower_from unicode_lower s i [] = []"
| "lower_from unicode_lower s i (c # cs) =
     (if is_ascii c then [ascii_lower c] else unicode_lower s i)
       @ lower_from unicode_lower s (Suc i) cs"

definition lower :: "(string \<Rightarrow> nat \<Rightarrow> string) \<Rightarrow> string \<Rightarrow> string" where
  "lower unicode_lower s = lower_from unicode_lower s 0 s"

fun str_in :: "string \<Rightarrow> string \<Rightarrow> bool" where
  "str_in sub [] = (sub = [])"
| "str_in sub (c # cs) = (prefix sub (c # cs) \<or> str_in sub cs)"

section \<open>The model: FearAndGreedIndicator and CNNFearAndGreedIndex\<close>

text \<open>
  The two classes as records. A field holds whatever the document gave, so scores and
  ratings are JSON values; a timestamp is a \<open>datetime\<close> of the standard library, an
  abstract type \<open>'dt\<close> here, with \<open>None\<close> for "not set".
\<close>

record 'dt FearAndGreedIndicator =
  ind_name :: string
  ind_score :: json
  ind_rating :: json
  ind_timestamp :: "'dt option"
  ind_historical_data :: json

record 'dt CNNFearAndGreedIndex =
  score :: json
  rating :: json
  previous_close :: json
  previous_1_week :: json
  previous_1_month :: json
  previous_1_year :: json
  timestamp :: "'dt option"
  historical_data :: json
  junk_bond_demand :: "'dt FearAndGreedIndicator"
  market_volatility :: "'dt FearAndGreedIndicator"
  put_call_options :: "'dt FearAndGreedIndicator"
  market_momentum :: "'dt FearAndGreedIndicator"
  stock_price_strength :: "'dt FearAndGreedIndicator"
  stock_price_breadth :: "'dt FearAndGreedIndicator"
  safe_haven_demand :: "'dt FearAndGreedIndicator"

definition INDICATOR_MAP :: "(string \<times> string) list" where
  "INDICATOR_MAP =
     [(''junk_bond_demand'', ''Junk Bond Demand''),
      (''market_volatility_vix'', ''Market Volatility (VIX)''),
      (''put_call_options'', ''Put and Call Options''),
      (''market_momentum_sp500'', ''Market Momentum (S&P 500)''),
      (''stock_price_strength'', ''Stock Price Strength''),
      (''stock_price_breadth'', ''Stock Price Breadth''),
      (''safe_haven_demand'', ''Safe Haven Demand'')]"

text \<open>
  \<open>FearAndGreedIndicator._load_from_data\<close>. \<open>datetime.fromtimestamp\<close> is library code:
  it is the parameter \<open>fromtimestamp\<close>, which returns the datetime or the error it raises.
\<close>

definition load_from_data ::
  "(real \<Rightarrow> py_error + 'dt) \<Rightarrow> 'dt FearAndGreedIndicator \<Rightarrow> json
     \<Rightarrow> py_error + 'dt FearAndGreedIndicator" where
  "load_from_data fromtimestamp self data =
     bind_err (dict_get data ''score'' (JNum 0)) (\<lambda>sc.
     bind_err (dict_get data ''rating'' (JStr ''N/A'')) (\<lambda>rt.
     bind_err (dict_get data ''timestamp'' JNull) (\<lambda>timestamp_ms.
     bind_err (if truthy timestamp_ms
               then bind_err (py_div_1000 timestamp_ms) (\<lambda>secs.
                    bind_err (fromtimestamp secs) (\<lambda>t. Inr (Some t)))
               else Inr (ind_timestamp self)) (\<lambda>ts.
     bind_err (dict_get data ''data'' (JArr [])) (\<lambda>hist.
     Inr (self\<lparr>ind_score := sc, ind_rating := rt, ind_timestamp := ts,
                ind_historical_data := hist\<rparr>))))))"

text \<open>\<open>FearAndGreedIndicator.__init__(name, data)\<close>; \<open>data\<close> is \<open>JNull\<close> for \<open>None\<close>.\<close>

definition FearAndGreedIndicator_init ::
  "(real \<Rightarrow> py_error + 'dt) \<Rightarrow> string \<Rightarrow> json \<Rightarrow> py_error + 'dt FearAndGreedIndicator" where
  "FearAndGreedIndicator_init fromtimestamp nm data =
     (let self = \<lparr>ind_name = nm, ind_score = JNum 0, ind_rating = JStr ''N/A'',
                   ind_timestamp = None, ind_historical_data = JArr []\<rparr>
      in if truthy data then load_from_data fromtimestamp self data else Inr self)"

text \<open>
  One indicator of \<open>_load_fear_and_greed\<close>:
  \<open>FearAndGreedIndicator(self._INDICATOR_MAP[key], data.get(key))\<close>.
\<close>

definition load_indicator ::
  "(real \<Rightarrow> py_error + 'dt) \<Rightarrow> json \<Rightarrow> string \<Rightarrow> py_error + 'dt FearAndGreedIndicator" where
  "load_indicator fromtimestamp data key =
     bind_err (dict_index INDICATOR_MAP key) (\<lambda>nm.
     bind_err (dict_get data key JNull) (\<lambda>d.
     FearAndGreedIndicator_init fromtimestamp nm d))"

text \<open>
  \<open>CNNFearAndGreedIndex._load_fear_and_greed\<close>, run by the constructor on the fields'
  initial values, with \<open>data\<close> the document the fetch returned. This is the Model
  Builder. \<open>datetime.fromisoformat\<close> is the parameter \<open>fromisoformat\<close>.
\<close>

definition load_fear_and_greed ::
  "(string \<Rightarrow> py_error + 'dt) \<Rightarrow> (real \<Rightarrow> py_error + 'dt) \<Rightarrow> json
     \<Rightarrow> py_error + 'dt CNNFearAndGreedIndex" where
  "load_fear_and_greed fromisoformat fromtimestamp data =
     bind_err (dict_get data ''fear_and_greed'' (JObj [])) (\<lambda>fg_data.
     bind_err (dict_get fg_data ''score'' (JNum 0)) (\<lambda>sc.
     bind_err (dict_get fg_data ''rating'' (JStr ''N/A'')) (\<lambda>rt.
     bind_err (dict_get fg_data ''previous_close'' (JNum 0)) (\<lambda>pc.
     bind_err (dict_get fg_data ''previous_1_week'' (JNum 0)) (\<lambda>pw.
     bind_err (dict_get fg_data ''previous_1_month'' (JNum 0)) (\<lambda>pm.
     bind_err (dict_get fg_data ''previous_1_year'' (JNum 0)) (\<lambda>py.
     bind_err (dict_get fg_data ''timestamp'' JNull) (\<lambda>timestamp_str.
     bind_err (if truthy timestamp_str
               then bind_err (py_replace timestamp_str ''+00:00'' ''+0000'') (\<lambda>s.
                    bind_err (fromisoformat s) (\<lambda>t. Inr (Some t)))
               else Inr None) (\<lambda>ts.
     bind_err (dict_get data ''fear_and_greed_historical'' (JObj [])) (\<lambda>fg_historical.
     bind_err (dict_get fg_historical ''data'' (JArr [])) (\<lambda>hist.
     bind_err (load_indicator fromtimestamp data ''junk_bond_demand'') (\<lambda>i1.
     bind_err (load_indicator fromtimestamp data ''market_volatility_vix'') (\<lambda>i2.
     bind_err (load_indicator fromtimestamp data ''put_call_options'') (\<lambda>i3.
     bind_err (load_indicator fromtimestamp data ''market_momentum_sp500'') (\<lambda>i4.
     bind_err (load_indicator fromtimestamp data ''stock_price_strength'') (\<lambda>i5.
     bind_err (load_indicator fromtimestamp data ''stock_price_breadth'') (\<lambda>i6.
     bind_err (load_indicator fromtimestamp data ''safe_haven_demand'') (\<lambda>i7.
     Inr \<lparr>score = sc, rating = rt, previous_close = pc, previous_1_week = pw,
          previous_1_month = pm, previous_1_year = py, timestamp = ts,
          historical_data = hist, junk_bond_demand = i1, market_volatility = i2,
          put_call_options = i3, market_momentum = i4, stock_price_strength = i5,
          stock_price_breadth = i6, safe_haven_demand = i7\<rparr>))))))))))))))))))"

text \<open>The property \<open>all_indicators\<close> and the accessor \<open>get_historical_data\<close>.\<close>

definition all_indicators :: "'dt CNNFearAndGreedIndex \<Rightarrow> 'dt FearAndGreedIndicator list" where
  "all_indicators self =
     [junk_bond_demand self, market_volatility self, put_call_options self,
      market_momentum self, stock_price_strength self, stock_price_breadth self,
      safe_haven_demand self]"

definition get_historical_data :: "'dt CNNFearAndGreedIndex \<Rightarrow> json" where
  "get_historical_data self = historical_data self"

section \<open>The Fetcher (scrape\_cnn.py) and the constructor\<close>








section \<open>Front-end operations on a built snapshot\<close>

subsection \<open>Indicator lookup (api\_server.py)\<close>

text \<open>
  \<open>get_indicator\<close> returns one of two dicts: the matching indicator's four fields, or
  \<open>{"error": "Indicator '<name>' not found"}\<close>.
\<close>

datatype 'dt indicator_reply =
    IndicatorReply string json json "'dt option"
  | ErrorReply string

fun get_indicator_loop ::
  "(string \<Rightarrow> nat \<Rightarrow> string) \<Rightarrow> string \<Rightarrow> string \<Rightarrow> 'dt FearAndGreedIndicator list
     \<Rightarrow> 'dt indicator_reply" where
  "get_indicator_loop unicode_lower nm name_lower [] =
     ErrorReply (''Indicator '' @ [CHR 0x27] @ nm @ [CHR 0x27] @ '' not found'')"
| "get_indicator_loop unicode_lower nm name_lower (ind # inds) =
     (if str_in name_lower (lower unicode_lower (ind_name ind))
      then IndicatorReply (ind_name ind) (ind_score ind) (ind_rating ind) (ind_timestamp ind)
      else get_indicator_loop unicode_lower nm name_lower inds)"

definition get_indicator ::
  "(string \<Rightarrow> nat \<Rightarrow> string) \<Rightarrow> 'dt CNNFearAndGreedIndex \<Rightarrow> string \<Rightarrow> 'dt indicator_reply" where
  "get_indicator unicode_lower fgi nm =
     (let name_lower = replace ''-'' '' '' (replace ''_'' '' '' (lower unicode_lower nm))
      in get_indicator_loop unicode_lower nm name_lower (all_indicators fgi))"

subsection \<open>History with a limit (api\_server.py, fgi\_cli.py, fgi\_mcp\_server.py)\<close>






section \<open>Which documents the Model Builder accepts\<close>

text \<open>
  A description of the accepted documents, to be proved equivalent to "the builder
  returns": the document is an object; \<open>fear_and_greed\<close> and
  \<open>fear_and_greed_historical\<close> are absent or objects; each indicator entry is absent,
  falsy or an object; and each timestamp that is set (truthy) converts.
\<close>

definition field :: "(string \<times> json) list \<Rightarrow> string \<Rightarrow> json" where
  "field kvs k = (case map_of kvs k of None \<Rightarrow> JNull | Some v \<Rightarrow> v)"

definition iso_timestamp_ok :: "(string \<Rightarrow> py_error + 'dt) \<Rightarrow> json \<Rightarrow> bool" where
  "iso_timestamp_ok fromisoformat v =
     (if truthy v
      then (case v of JStr s \<Rightarrow> \<not> isl (fromisoformat (replace ''+00:00'' ''+0000'' s))
            | _ \<Rightarrow> False)
      else True)"

definition ms_timestamp_ok :: "(real \<Rightarrow> py_error + 'dt) \<Rightarrow> json \<Rightarrow> bool" where
  "ms_timestamp_ok fromtimestamp v =
     (if truthy v
      then (case v of JNum r \<Rightarrow> \<not> isl (fromtimestamp (r / 1000))
            | JBool b \<Rightarrow> \<not> isl (fromtimestamp (1 / 1000))
            | _ \<Rightarrow> False)
      else True)"

definition indicator_ok :: "(real \<Rightarrow> py_error + 'dt) \<Rightarrow> json \<Rightarrow> bool" where
  "indicator_ok fromtimestamp v =
     (if truthy v
      then (case v of JObj d \<Rightarrow> ms_timestamp_ok fromtimestamp (field d ''timestamp'')
            | _ \<Rightarrow> False)
      else True)"

definition well_formed ::
  "(string \<Rightarrow> py_error + 'dt) \<Rightarrow> (real \<Rightarrow> py_error + 'dt) \<Rightarrow> json \<Rightarrow> bool" where
  "well_formed fromisoformat fromtimestamp doc =
     (case doc of
        JObj kvs \<Rightarrow>
          (case map_of kvs ''fear_and_greed'' of
             None \<Rightarrow> True
           | Some fg \<Rightarrow>
               (case fg of JObj d \<Rightarrow> iso_timestamp_ok fromisoformat (field d ''timestamp'')
                | _ \<Rightarrow> False))
          \<and> (case map_of kvs ''fear_and_greed_historical'' of
               None \<Rightarrow> True
             | Some h \<Rightarrow> (case h of JObj d \<Rightarrow> True | _ \<Rightarrow> False))
          \<and> list_all (\<lambda>k. indicator_ok fromtimestamp (field kvs k)) (map fst INDICATOR_MAP)
      | _ \<Rightarrow> False)"

text \<open>
  Two converters on which to run the model: a symbolic \<open>datetime\<close> that records how it
  was made, and converters that accept every argument.
\<close>

datatype datetime = FromIso string | FromTimestamp real

definition any_fromisoformat :: "string \<Rightarrow> py_error + datetime" where
  "any_fromisoformat s = Inr (FromIso s)"

definition any_fromtimestamp :: "real \<Rightarrow> py_error + datetime" where
  "any_fromtimestamp secs = Inr (FromTimestamp secs)"


text \<open>
  A library and a network on which to run the fetch. A response is a status code and
  the document its body parses to, if it does. As \<open>requests\<close> documents them:
  \<open>raise_for_status\<close> raises an \<open>HTTPError\<close> for the statuses 400 to 599 and for no other,
  and \<open>json\<close> raises when the body is not JSON. The network answers every request alike.
\<close>

datatype requests_error = Timeout | ConnectionError | HTTPError nat | JSONDecodeError





text \<open>
  A \<open>unicode_lower\<close> on which to run the lookup: it leaves every non-ASCII byte as it is.
\<close>

definition no_unicode_lower :: "string \<Rightarrow> nat \<Rightarrow> string" where
  "no_unicode_lower s i = [s ! i]"

text \<open>
  A fabricated document on which to run the model: the composite at 72.3 ("greed"), a
  three-point historical series, two of the seven indicator entries, and the keys in an
  order that is not the canonical one.
\<close>

definition example_entries :: "(string \<times> json) list" where
  "example_entries =
     [(''market_volatility_vix'',
         JObj [(''score'', JNum 50), (''rating'', JStr ''neutral''),
               (''timestamp'', JNum 1705320000000), (''data'', JArr [])]),
      (''fear_and_greed_historical'',
         JObj [(''data'', JArr
           [JObj [(''x'', JNum 1705147200000), (''y'', JNum 70), (''rating'', JStr ''greed'')],
            JObj [(''x'', JNum 1705233600000), (''y'', JNum 71), (''rating'', JStr ''greed'')],
            JObj [(''x'', JNum 1705320000000), (''y'', JNum (723 / 10)), (''rating'', JStr ''greed'')]])]),
      (''fear_and_greed'',
         JObj [(''score'', JNum (723 / 10)), (''rating'', JStr ''greed''),
               (''timestamp'', JStr ''2024-01-15T12:00:00+00:00''),
               (''previous_close'', JNum 71)]),
      (''junk_bond_demand'', JObj [(''rating'', JStr ''fear'')])]"

definition example_document :: json where
  "example_document = JObj example_entries"

section \<open>Properties\<close>

subsection \<open>How the builder's steps succeed and fail\<close>

lemma bind_err_Inr_iff: "bind_err m f = Inr y \<longleftrightarrow> (\<exists>x. m = Inr x \<and> f x = Inr y)"
  by (cases m) (simp_all add: bind_err_def)

lemma isl_bind_err: "isl (bind_err m f) \<longleftrightarrow> isl m \<or> isl (f (projr m))"
  by (cases m) (simp_all add: bind_err_def)

lemma dict_get_Inr_iff:
  "dict_get d k dflt = Inr v \<longleftrightarrow>
     (\<exists>kvs. d = JObj kvs \<and> v = (case map_of kvs k of None \<Rightarrow> dflt | Some w \<Rightarrow> w))"
  by (cases d) auto

lemma isl_load_from_data:
  "isl (load_from_data q self d) \<longleftrightarrow> \<not> (\<exists>kvs. d = JObj kvs \<and> ms_timestamp_ok q (field kvs ''timestamp''))"
  apply (cases d)
  apply (simp_all add: load_from_data_def isl_bind_err)
  apply (simp add: ms_timestamp_ok_def field_def isl_bind_err split: option.splits json.splits)
  done

lemma isl_FearAndGreedIndicator_init:
  "isl (FearAndGreedIndicator_init q nm d) \<longleftrightarrow> \<not> indicator_ok q d"
  by (cases d) (simp_all add: FearAndGreedIndicator_init_def indicator_ok_def isl_load_from_data)

lemma isl_load_indicator:
  "k \<in> set (map fst INDICATOR_MAP) \<Longrightarrow>
   isl (load_indicator q (JObj kvs) k) \<longleftrightarrow> \<not> indicator_ok q (field kvs k)"
  by (auto simp: load_indicator_def isl_bind_err dict_index_def INDICATOR_MAP_def
      isl_FearAndGreedIndicator_init field_def)

lemma isl_timestamp_step:
  "isl (if truthy v
        then bind_err (py_replace v ''+00:00'' ''+0000'') (\<lambda>s. bind_err (p s) (\<lambda>t. Inr (Some t)))
        else Inr None) \<longleftrightarrow> \<not> iso_timestamp_ok p v"
  by (cases v) (simp_all add: iso_timestamp_ok_def isl_bind_err)

lemma isl_load_fear_and_greed:
  "isl (load_fear_and_greed p q doc) \<longleftrightarrow> \<not> well_formed p q doc"
proof (cases doc)
  case (JObj kvs)
  have keys: "map fst INDICATOR_MAP = [''junk_bond_demand'', ''market_volatility_vix'',
      ''put_call_options'', ''market_momentum_sp500'', ''stock_price_strength'',
      ''stock_price_breadth'', ''safe_haven_demand'']"
    by (simp add: INDICATOR_MAP_def)
  have ind: "\<And>k. k \<in> set (map fst INDICATOR_MAP) \<Longrightarrow>
      isl (load_indicator q (JObj kvs) k) \<longleftrightarrow> \<not> indicator_ok q (field kvs k)"
    using isl_load_indicator by blast
  note inds = ind [unfolded keys, simplified]
  show ?thesis
    unfolding JObj load_fear_and_greed_def well_formed_def keys
    by (cases "map_of kvs ''fear_and_greed''"; cases "map_of kvs ''fear_and_greed_historical''")
      (simp_all add: isl_bind_err isl_timestamp_step inds field_def [symmetric]
        iso_timestamp_ok_def split: json.splits)
qed (simp_all add: load_fear_and_greed_def bind_err_def well_formed_def)

lemma load_fear_and_greed_indicators:
  assumes "load_fear_and_greed p q doc = Inr fgi"
  shows "load_indicator q doc ''junk_bond_demand'' = Inr (junk_bond_demand fgi)"
    and "load_indicator q doc ''market_volatility_vix'' = Inr (market_volatility fgi)"
    and "load_indicator q doc ''put_call_options'' = Inr (put_call_options fgi)"
    and "load_indicator q doc ''market_momentum_sp500'' = Inr (market_momentum fgi)"
    and "load_indicator q doc ''stock_price_strength'' = Inr (stock_price_strength fgi)"
    and "load_indicator q doc ''stock_price_breadth'' = Inr (stock_price_breadth fgi)"
    and "load_indicator q doc ''safe_haven_demand'' = Inr (safe_haven_demand fgi)"
  using assms unfolding load_fear_and_greed_def
  by (auto simp: bind_err_Inr_iff)

lemma load_fear_and_greed_historical:
  assumes "load_fear_and_greed p q doc = Inr fgi"
  shows "\<exists>h. dict_get doc ''fear_and_greed_historical'' (JObj []) = Inr h
           \<and> dict_get h ''data'' (JArr []) = Inr (historical_data fgi)"
  using assms unfolding load_fear_and_greed_def
  by (auto simp: bind_err_Inr_iff)

lemma FearAndGreedIndicator_init_name:
  "FearAndGreedIndicator_init q nm d = Inr i \<Longrightarrow> ind_name i = nm"
  by (auto simp: FearAndGreedIndicator_init_def load_from_data_def bind_err_Inr_iff Let_def
      split: if_splits)

lemma FearAndGreedIndicator_init_falsy:
  "\<not> truthy d \<Longrightarrow> FearAndGreedIndicator_init q nm d =
     Inr \<lparr>ind_name = nm, ind_score = JNum 0, ind_rating = JStr ''N/A'',
          ind_timestamp = None, ind_historical_data = JArr []\<rparr>"
  by (simp add: FearAndGreedIndicator_init_def)

lemma load_indicator_name:
  "load_indicator q doc k = Inr i \<Longrightarrow> map_of INDICATOR_MAP k = Some (ind_name i)"
  by (auto simp: load_indicator_def bind_err_Inr_iff dict_index_def
      dest: FearAndGreedIndicator_init_name split: option.splits)

lemma load_indicator_missing:
  "load_indicator q (JObj kvs) k = Inr i \<Longrightarrow>
   map_of kvs k = None \<longrightarrow>
   i = \<lparr>ind_name = the (map_of INDICATOR_MAP k), ind_score = JNum 0,
        ind_rating = JStr ''N/A'', ind_timestamp = None, ind_historical_data = JArr []\<rparr>"
  by (auto simp: load_indicator_def bind_err_Inr_iff FearAndGreedIndicator_init_falsy
      dict_index_def split: option.splits)

lemma load_fear_and_greed_cong:
  "map_of kvs = map_of kvs' \<Longrightarrow>
   load_fear_and_greed p q (JObj kvs) = load_fear_and_greed p q (JObj kvs')"
  by (simp add: load_fear_and_greed_def load_indicator_def)

lemma all_indicators_names:
  assumes "load_fear_and_greed p q doc = Inr fgi"
  shows "map ind_name (all_indicators fgi) =
     [''Junk Bond Demand'', ''Market Volatility (VIX)'', ''Put and Call Options'',
      ''Market Momentum (S&P 500)'', ''Stock Price Strength'', ''Stock Price Breadth'',
      ''Safe Haven Demand'']"
  using load_fear_and_greed_indicators [OF assms, THEN load_indicator_name]
  by (simp add: all_indicators_def INDICATOR_MAP_def)

subsection \<open>Strings and slices\<close>

lemma replace_char:
  "replace [a] [b] s = map (\<lambda>c. if c = a then b else c) s"
proof (induction s)
  case Nil
  show ?case by (simp add: replace.simps)
next
  case (Cons x xs)
  then show ?case by (subst replace.simps) auto
qed



lemma str_in_sublist: "str_in xs ys \<longleftrightarrow> sublist xs ys"
  by (induction ys) (simp_all add: sublist_Cons_right)

lemma get_indicator_loop_find:
  "get_indicator_loop u nm nl inds =
     (case find (\<lambda>ind. str_in nl (lower u (ind_name ind))) inds of
        None \<Rightarrow> ErrorReply (''Indicator '' @ [CHR 0x27] @ nm @ [CHR 0x27] @ '' not found'')
      | Some ind \<Rightarrow>
          IndicatorReply (ind_name ind) (ind_score ind) (ind_rating ind) (ind_timestamp ind))"
  by (induction inds) simp_all

lemma lower_from_ascii:
  "\<forall>c \<in> set cs. is_ascii c \<Longrightarrow> lower_from u s i cs = map ascii_lower cs"
  by (induction cs arbitrary: i) simp_all

lemma lower_ascii: "\<forall>c \<in> set s. is_ascii c \<Longrightarrow> lower u s = map ascii_lower s"
  by (simp add: lower_def lower_from_ascii)

lemma map_of_filter_key:
  "map_of (filter (\<lambda>kv. fst kv \<noteq> k) kvs) k' = (if k' = k then None else map_of kvs k')"
  by (induction kvs) auto




subsection \<open>Trading signal\<close>

text \<open>
  C1. For every score the trading signal is fixed by the band the score lies in, the
  bands being \<open>s < 20\<close>, \<open>20 \<le> s < 40\<close>, \<open>40 \<le> s < 60\<close>, \<open>60 \<le> s < 80\<close> and
  \<open>80 \<le> s\<close>: STRONG\_BUY, BUY, HOLD, SELL, STRONG\_SELL, each with its fixed
  recommendation string. The lower boundary belongs to the upper band, so
  \<open>signal(20) = BUY\<close> and \<open>signal(40) = HOLD\<close>. The REST adapter and the CLI command
  agree on the bands and on the recommendation; the CLI writes the two outer labels with
  a space.
\<close>

theorem trading_signal_bands:
  fixes s :: real
  shows "(s < 20 \<longrightarrow>
            get_trading_signal s = (''STRONG_BUY'', ''Extreme fear - potential buying opportunity'')
          \<and> fst (signal s) = ''STRONG BUY'')
       \<and> (20 \<le> s \<and> s < 40 \<longrightarrow>
            get_trading_signal s = (''BUY'', ''Fear in market - consider accumulating'')
          \<and> fst (signal s) = ''BUY'')
       \<and> (40 \<le> s \<and> s < 60 \<longrightarrow>
            get_trading_signal s = (''HOLD'', ''Neutral sentiment - maintain positions'')
          \<and> fst (signal s) = ''HOLD'')
       \<and> (60 \<le> s \<and> s < 80 \<longrightarrow>
            get_trading_signal s = (''SELL'', ''Greed in market - consider taking profits'')
          \<and> fst (signal s) = ''SELL'')
       \<and> (80 \<le> s \<longrightarrow>
            get_trading_signal s = (''STRONG_SELL'', ''Extreme greed - potential market top'')
          \<and> fst (signal s) = ''STRONG SELL'')
       \<and> fst (snd (signal s)) = snd (get_trading_signal s)
       \<and> get_trading_signal 20 = (''BUY'', ''Fear in market - consider accumulating'')
       \<and> get_trading_signal 40 = (''HOLD'', ''Neutral sentiment - maintain positions'')"
  by (simp add: get_trading_signal_def signal_def)

theorem trading_signal_bands_witness:
  "fst (get_trading_signal (199 / 10)) = ''STRONG_BUY''
   \<and> fst (get_trading_signal 20) = ''BUY'' \<and> fst (signal 20) = ''BUY''
   \<and> fst (get_trading_signal (399 / 10)) = ''BUY''
   \<and> fst (get_trading_signal 40) = ''HOLD'' \<and> fst (signal 40) = ''HOLD''
   \<and> fst (get_trading_signal (723 / 10)) = ''SELL''
   \<and> fst (get_trading_signal 80) = ''STRONG_SELL'' \<and> fst (signal 80) = ''STRONG SELL''"
  using trading_signal_bands [of "199 / 10"] trading_signal_bands [of 20]
    trading_signal_bands [of "399 / 10"] trading_signal_bands [of 40]
    trading_signal_bands [of "723 / 10"] trading_signal_bands [of 80]
  by simp

subsection \<open>Severity banding\<close>

lemma plot_all_indicators_colors_map:
  "plot_all_indicators_colors scores colors = colors @ map bar_color scores"
  by (induction scores arbitrary: colors) simp_all

text \<open>
  C2. For every score the severity band is fixed by the boundaries 25, 45, 55, 75
  (extreme-fear below 25, fear in \<open>[25, 45)\<close>, neutral in \<open>[45, 55)\<close>, greed in
  \<open>[55, 75)\<close>, extreme-greed from 75 on), and every banding function of the front-ends
  (CLI colour, CLI emoji, dashboard colour, bar-chart colour) is a function of that band:
  it returns the constant the source gives for the band of the score.
\<close>

theorem severity_bands:
  fixes s :: real
  shows "(s < 25 \<longrightarrow> severity_band_spec s = ExtremeFear)
       \<and> (25 \<le> s \<and> s < 45 \<longrightarrow> severity_band_spec s = Fear)
       \<and> (45 \<le> s \<and> s < 55 \<longrightarrow> severity_band_spec s = Neutral)
       \<and> (55 \<le> s \<and> s < 75 \<longrightarrow> severity_band_spec s = Greed)
       \<and> (75 \<le> s \<longrightarrow> severity_band_spec s = ExtremeGreed)
       \<and> get_color_for_score s = cli_color_of (severity_band_spec s)
       \<and> get_emoji_for_score s = cli_emoji_of (severity_band_spec s)
       \<and> app_get_color_for_score s = app_color_of (severity_band_spec s)
       \<and> plot_all_indicators_colors (s # scores) [] =
            chart_color_of (severity_band_spec s) # plot_all_indicators_colors scores []"
  by (simp add: severity_band_spec_def get_color_for_score_def get_emoji_for_score_def
      app_get_color_for_score_def plot_all_indicators_colors_map bar_color_def)

theorem severity_bands_witness:
  "severity_band_spec 24 = ExtremeFear \<and> severity_band_spec 25 = Fear
   \<and> severity_band_spec 45 = Neutral \<and> severity_band_spec 55 = Greed
   \<and> severity_band_spec (723 / 10) = Greed \<and> severity_band_spec 75 = ExtremeGreed
   \<and> get_color_for_score 25 = ''orange1'' \<and> app_get_color_for_score 75 = ''#006400''
   \<and> plot_all_indicators_colors [55] [] = [''#90EE90'']"
  using severity_bands [of 24 "[]"] severity_bands [of 25 "[]"] severity_bands [of 45 "[]"]
    severity_bands [of 55 "[]"] severity_bands [of "723 / 10" "[]"] severity_bands [of 75 "[]"]
  by simp

subsection \<open>Failure policy of the Model Builder\<close>

text \<open>
  C3, as the code has it. The builder returns a snapshot exactly for the well-formed
  documents: an object whose \<open>fear_and_greed\<close> and \<open>fear_and_greed_historical\<close> entries
  are absent or objects, whose indicator entries are absent, falsy or objects, and whose
  set timestamps convert. A document that is not an object fails with AttributeError.
  Missing entries never make it fail: deleting a top-level key from a well-formed
  document leaves it well-formed, and the empty object is well-formed. A present entry of
  the wrong type does make it fail.
\<close>

theorem model_builder_failure_policy:
  "((\<exists>fgi. load_fear_and_greed p q doc = Inr fgi) \<longleftrightarrow> well_formed p q doc)
   \<and> ((\<forall>kvs. doc \<noteq> JObj kvs) \<longrightarrow> load_fear_and_greed p q doc = Inl AttributeError)
   \<and> (\<forall>kvs k. doc = JObj kvs \<and> well_formed p q doc \<longrightarrow>
         well_formed p q (JObj (filter (\<lambda>kv. fst kv \<noteq> k) kvs)))
   \<and> well_formed p q (JObj [])"
proof (intro conjI allI impI)
  have "(\<exists>fgi. load_fear_and_greed p q doc = Inr fgi) \<longleftrightarrow> \<not> isl (load_fear_and_greed p q doc)"
    by (cases "load_fear_and_greed p q doc") simp_all
  then show "(\<exists>fgi. load_fear_and_greed p q doc = Inr fgi) \<longleftrightarrow> well_formed p q doc"
    by (simp add: isl_load_fear_and_greed)
next
  assume "\<forall>kvs. doc \<noteq> JObj kvs"
  then show "load_fear_and_greed p q doc = Inl AttributeError"
    by (cases doc) (simp_all add: load_fear_and_greed_def bind_err_def)
next
  fix kvs k
  assume "doc = JObj kvs \<and> well_formed p q doc"
  then have wf: "well_formed p q (JObj kvs)" by blast
  have nul: "indicator_ok q JNull" by (simp add: indicator_ok_def)
  from wf show "well_formed p q (JObj (filter (\<lambda>kv. fst kv \<noteq> k) kvs))"
    by (simp add: well_formed_def field_def map_of_filter_key nul INDICATOR_MAP_def)
next
  show "well_formed p q (JObj [])"
    by (simp add: well_formed_def field_def indicator_ok_def INDICATOR_MAP_def)
qed

theorem model_builder_failure_policy_witness:
  "(\<exists>fgi. load_fear_and_greed any_fromisoformat any_fromtimestamp example_document = Inr fgi)
   \<and> well_formed any_fromisoformat any_fromtimestamp example_document
   \<and> load_fear_and_greed any_fromisoformat any_fromtimestamp (JArr []) = Inl AttributeError
   \<and> well_formed any_fromisoformat any_fromtimestamp
        (JObj (filter (\<lambda>kv. fst kv \<noteq> ''fear_and_greed'')
           [(''fear_and_greed'', JObj []), (''junk_bond_demand'', JNull)]))"
proof -
  have wf: "well_formed any_fromisoformat any_fromtimestamp example_document"
    by (simp add: example_document_def example_entries_def well_formed_def indicator_ok_def ms_timestamp_ok_def
        iso_timestamp_ok_def field_def INDICATOR_MAP_def any_fromisoformat_def
        any_fromtimestamp_def)
  have wf2: "well_formed any_fromisoformat any_fromtimestamp
      (JObj [(''fear_and_greed'', JObj []), (''junk_bond_demand'', JNull)])"
    by (simp add: well_formed_def indicator_ok_def iso_timestamp_ok_def field_def
        INDICATOR_MAP_def)
  show ?thesis
    using wf wf2
      model_builder_failure_policy [of any_fromisoformat any_fromtimestamp example_document]
      model_builder_failure_policy [of any_fromisoformat any_fromtimestamp "JArr []"]
      model_builder_failure_policy [of any_fromisoformat any_fromtimestamp
        "JObj [(''fear_and_greed'', JObj []), (''junk_bond_demand'', JNull)]"]
    by blast
qed

text \<open>
  A mapping whose \<open>fear_and_greed\<close> entry is \<open>null\<close>: the builder fails on it, though
  the document is a mapping.
\<close>

theorem model_builder_failure_policy_counterexample:
  "load_fear_and_greed any_fromisoformat any_fromtimestamp
     (JObj [(''fear_and_greed'', JNull)]) = Inl AttributeError"
  by (simp add: load_fear_and_greed_def bind_err_def)

subsection \<open>The seven indicators\<close>

text \<open>
  C4. Every snapshot the builder returns has exactly seven indicators, named by the seven
  canonical names in the canonical order, whatever entries the document has and in
  whatever order: an indicator whose entry is missing is the placeholder (score 0.0,
  rating "N/A", no timestamp, empty series) under its canonical name, and a document with
  the same entries in another order gives the same snapshot.
\<close>

theorem indicators_always_seven:
  assumes "load_fear_and_greed p q doc = Inr fgi"
  shows "length (all_indicators fgi) = 7
     \<and> map ind_name (all_indicators fgi) =
         [''Junk Bond Demand'', ''Market Volatility (VIX)'', ''Put and Call Options'',
          ''Market Momentum (S&P 500)'', ''Stock Price Strength'', ''Stock Price Breadth'',
          ''Safe Haven Demand'']
     \<and> (\<forall>kvs. doc = JObj kvs \<longrightarrow>
          list_all2
            (\<lambda>kn ind. map_of kvs (fst kn) = None \<longrightarrow>
               ind = \<lparr>ind_name = snd kn, ind_score = JNum 0, ind_rating = JStr ''N/A'',
                      ind_timestamp = None, ind_historical_data = JArr []\<rparr>)
            INDICATOR_MAP (all_indicators fgi))
     \<and> (\<forall>kvs kvs'. doc = JObj kvs \<and> distinct (map fst kvs) \<and> distinct (map fst kvs')
            \<and> set kvs' = set kvs \<longrightarrow>
          load_fear_and_greed p q (JObj kvs') = Inr fgi)"
proof (intro conjI allI impI)
  show "length (all_indicators fgi) = 7"
    by (simp add: all_indicators_def)
  show names: "map ind_name (all_indicators fgi) =
         [''Junk Bond Demand'', ''Market Volatility (VIX)'', ''Put and Call Options'',
          ''Market Momentum (S&P 500)'', ''Stock Price Strength'', ''Stock Price Breadth'',
          ''Safe Haven Demand'']"
    by (rule all_indicators_names [OF assms])
  {
    fix kvs
    assume doc: "doc = JObj kvs"
    note inds = load_fear_and_greed_indicators [OF assms, unfolded doc]
    note ph = inds [THEN load_indicator_missing]
    show "list_all2
            (\<lambda>kn ind. map_of kvs (fst kn) = None \<longrightarrow>
               ind = \<lparr>ind_name = snd kn, ind_score = JNum 0, ind_rating = JStr ''N/A'',
                      ind_timestamp = None, ind_historical_data = JArr []\<rparr>)
            INDICATOR_MAP (all_indicators fgi)"
      using ph by (simp add: all_indicators_def INDICATOR_MAP_def)
  }
  {
    fix kvs kvs'
    assume h: "doc = JObj kvs \<and> distinct (map fst kvs) \<and> distinct (map fst kvs')
            \<and> set kvs' = set kvs"
    then have "map_of kvs' = map_of kvs"
      by (simp add: map_of_inject_set)
    then show "load_fear_and_greed p q (JObj kvs') = Inr fgi"
      using assms h load_fear_and_greed_cong by metis
  }
qed

theorem indicators_always_seven_witness:
  "\<not> isl (load_fear_and_greed any_fromisoformat any_fromtimestamp example_document)
   \<and> length (all_indicators
        (projr (load_fear_and_greed any_fromisoformat any_fromtimestamp example_document))) = 7
   \<and> map ind_name (all_indicators
        (projr (load_fear_and_greed any_fromisoformat any_fromtimestamp example_document))) =
         [''Junk Bond Demand'', ''Market Volatility (VIX)'', ''Put and Call Options'',
          ''Market Momentum (S&P 500)'', ''Stock Price Strength'', ''Stock Price Breadth'',
          ''Safe Haven Demand'']
   \<and> safe_haven_demand
        (projr (load_fear_and_greed any_fromisoformat any_fromtimestamp example_document)) =
         \<lparr>ind_name = ''Safe Haven Demand'', ind_score = JNum 0, ind_rating = JStr ''N/A'',
          ind_timestamp = None, ind_historical_data = JArr []\<rparr>"
proof -
  have ok: "\<not> isl (load_fear_and_greed any_fromisoformat any_fromtimestamp example_document)"
    by (simp add: example_document_def example_entries_def load_fear_and_greed_def load_indicator_def
        dict_index_def INDICATOR_MAP_def FearAndGreedIndicator_init_def load_from_data_def
        bind_err_def any_fromisoformat_def any_fromtimestamp_def replace.simps)
  then have h: "load_fear_and_greed any_fromisoformat any_fromtimestamp example_document =
      Inr (projr (load_fear_and_greed any_fromisoformat any_fromtimestamp example_document))"
    by simp
  note res = indicators_always_seven [OF h]
  note ph = res [THEN conjunct2, THEN conjunct2, THEN conjunct1, rule_format,
      OF example_document_def]
  show ?thesis
    using ok res [THEN conjunct1] res [THEN conjunct2, THEN conjunct1] ph
    by (simp add: INDICATOR_MAP_def all_indicators_def example_entries_def)
qed

subsection \<open>Defaults for missing fields\<close>

lemma load_indicator_defaults:
  assumes "load_indicator q (JObj kvs) k = Inr i" and "map_of kvs k = Some (JObj d)"
  shows "(map_of d ''score'' = None \<longrightarrow> ind_score i = JNum 0)
       \<and> (map_of d ''rating'' = None \<longrightarrow> ind_rating i = JStr ''N/A'')"
  using assms
  by (auto simp: load_indicator_def bind_err_Inr_iff FearAndGreedIndicator_init_def
      load_from_data_def Let_def split: if_splits)

lemma load_fear_and_greed_fields:
  assumes "load_fear_and_greed p q (JObj kvs) = Inr fgi"
    and "(case map_of kvs ''fear_and_greed'' of None \<Rightarrow> JObj [] | Some v \<Rightarrow> v) = JObj d"
    and "ts = (case map_of d ''timestamp'' of None \<Rightarrow> JNull | Some v \<Rightarrow> v)"
  shows "score fgi = (case map_of d ''score'' of None \<Rightarrow> JNum 0 | Some v \<Rightarrow> v)"
    and "rating fgi = (case map_of d ''rating'' of None \<Rightarrow> JStr ''N/A'' | Some v \<Rightarrow> v)"
    and "previous_close fgi = (case map_of d ''previous_close'' of None \<Rightarrow> JNum 0 | Some v \<Rightarrow> v)"
    and "previous_1_week fgi = (case map_of d ''previous_1_week'' of None \<Rightarrow> JNum 0 | Some v \<Rightarrow> v)"
    and "previous_1_month fgi = (case map_of d ''previous_1_month'' of None \<Rightarrow> JNum 0 | Some v \<Rightarrow> v)"
    and "previous_1_year fgi = (case map_of d ''previous_1_year'' of None \<Rightarrow> JNum 0 | Some v \<Rightarrow> v)"
    and "(if truthy ts
          then bind_err (py_replace ts ''+00:00'' ''+0000'')
                 (\<lambda>s. bind_err (p s) (\<lambda>t. Inr (Some t)))
          else Inr None) = Inr (timestamp fgi)"
  using assms unfolding load_fear_and_greed_def
  by (auto simp: bind_err_Inr_iff split del: if_split)


lemma load_fear_and_greed_missing_fields:
  assumes "load_fear_and_greed p q (JObj kvs) = Inr fgi"
    and "map_of kvs ''fear_and_greed'' = Some (JObj d)"
  shows "(map_of d ''score'' = None \<longrightarrow> score fgi = JNum 0)
       \<and> (map_of d ''rating'' = None \<longrightarrow> rating fgi = JStr ''N/A'')
       \<and> (map_of d ''previous_close'' = None \<longrightarrow> previous_close fgi = JNum 0)
       \<and> (map_of d ''previous_1_week'' = None \<longrightarrow> previous_1_week fgi = JNum 0)
       \<and> (map_of d ''previous_1_month'' = None \<longrightarrow> previous_1_month fgi = JNum 0)
       \<and> (map_of d ''previous_1_year'' = None \<longrightarrow> previous_1_year fgi = JNum 0)
       \<and> (map_of d ''timestamp'' = None \<longrightarrow> timestamp fgi = None)"
proof -
  from assms(2)
  have fg: "(case map_of kvs ''fear_and_greed'' of None \<Rightarrow> JObj [] | Some v \<Rightarrow> v) = JObj d"
    by simp
  note f = load_fear_and_greed_fields [OF assms(1) fg refl]
  have "map_of d ''timestamp'' = None \<longrightarrow> timestamp fgi = None"
    using f(7) by auto
  with f(1-6) show ?thesis by simp
qed

lemma load_fear_and_greed_missing_composite:
  assumes "map_of kvs ''fear_and_greed'' = None" and "well_formed p q (JObj kvs)"
  shows "\<exists>fgi. load_fear_and_greed p q (JObj kvs) = Inr fgi
         \<and> score fgi = JNum 0 \<and> rating fgi = JStr ''N/A''
         \<and> previous_close fgi = JNum 0 \<and> previous_1_week fgi = JNum 0
         \<and> previous_1_month fgi = JNum 0 \<and> previous_1_year fgi = JNum 0
         \<and> timestamp fgi = None
         \<and> map ind_name (all_indicators fgi) =
             [''Junk Bond Demand'', ''Market Volatility (VIX)'', ''Put and Call Options'',
              ''Market Momentum (S&P 500)'', ''Stock Price Strength'', ''Stock Price Breadth'',
              ''Safe Haven Demand'']"
proof -
  from assms(2) have "\<not> isl (load_fear_and_greed p q (JObj kvs))"
    by (simp add: isl_load_fear_and_greed)
  then obtain fgi where fgi: "load_fear_and_greed p q (JObj kvs) = Inr fgi"
    by (cases "load_fear_and_greed p q (JObj kvs)") simp_all
  from assms(1)
  have fg: "(case map_of kvs ''fear_and_greed'' of None \<Rightarrow> JObj [] | Some v \<Rightarrow> v) = JObj []"
    by simp
  have ts: "JNull = (case map_of [] ''timestamp'' of None \<Rightarrow> JNull | Some v \<Rightarrow> v)"
    by simp
  note f = load_fear_and_greed_fields [OF fgi fg ts]
  have "load_fear_and_greed p q (JObj kvs) = Inr fgi
         \<and> score fgi = JNum 0 \<and> rating fgi = JStr ''N/A''
         \<and> previous_close fgi = JNum 0 \<and> previous_1_week fgi = JNum 0
         \<and> previous_1_month fgi = JNum 0 \<and> previous_1_year fgi = JNum 0
         \<and> timestamp fgi = None
         \<and> map ind_name (all_indicators fgi) =
             [''Junk Bond Demand'', ''Market Volatility (VIX)'', ''Put and Call Options'',
              ''Market Momentum (S&P 500)'', ''Stock Price Strength'', ''Stock Price Breadth'',
              ''Safe Haven Demand'']"
    using fgi f all_indicators_names [OF fgi] by simp
  then show ?thesis
    by (intro exI [of _ fgi]) assumption
qed

text \<open>
  C5, as the code has it. A document that is a mapping, has no \<open>fear_and_greed\<close> key and
  is otherwise well-formed is accepted, and the snapshot has score 0.0, rating "N/A", the
  four previous scores 0.0, no timestamp and the seven indicators. In every accepted
  document a field missing from the \<open>fear_and_greed\<close> object, or from an indicator
  object, takes its default: 0.0 for a number, "N/A" for the rating, nothing for the
  timestamp.
\<close>

theorem missing_fear_and_greed_defaults:
  "(map_of kvs ''fear_and_greed'' = None \<and> well_formed p q (JObj kvs) \<longrightarrow>
      (\<exists>fgi. load_fear_and_greed p q (JObj kvs) = Inr fgi
         \<and> score fgi = JNum 0 \<and> rating fgi = JStr ''N/A''
         \<and> previous_close fgi = JNum 0 \<and> previous_1_week fgi = JNum 0
         \<and> previous_1_month fgi = JNum 0 \<and> previous_1_year fgi = JNum 0
         \<and> timestamp fgi = None
         \<and> map ind_name (all_indicators fgi) =
             [''Junk Bond Demand'', ''Market Volatility (VIX)'', ''Put and Call Options'',
              ''Market Momentum (S&P 500)'', ''Stock Price Strength'', ''Stock Price Breadth'',
              ''Safe Haven Demand'']))
   \<and> (\<forall>fgi d. load_fear_and_greed p q (JObj kvs) = Inr fgi
         \<and> map_of kvs ''fear_and_greed'' = Some (JObj d) \<longrightarrow>
         (map_of d ''score'' = None \<longrightarrow> score fgi = JNum 0)
       \<and> (map_of d ''rating'' = None \<longrightarrow> rating fgi = JStr ''N/A'')
       \<and> (map_of d ''previous_close'' = None \<longrightarrow> previous_close fgi = JNum 0)
       \<and> (map_of d ''previous_1_week'' = None \<longrightarrow> previous_1_week fgi = JNum 0)
       \<and> (map_of d ''previous_1_month'' = None \<longrightarrow> previous_1_month fgi = JNum 0)
       \<and> (map_of d ''previous_1_year'' = None \<longrightarrow> previous_1_year fgi = JNum 0)
       \<and> (map_of d ''timestamp'' = None \<longrightarrow> timestamp fgi = None))
   \<and> (\<forall>k i d. load_indicator q (JObj kvs) k = Inr i \<and> map_of kvs k = Some (JObj d) \<longrightarrow>
         (map_of d ''score'' = None \<longrightarrow> ind_score i = JNum 0)
       \<and> (map_of d ''rating'' = None \<longrightarrow> ind_rating i = JStr ''N/A''))"
proof (intro conjI)
  show "map_of kvs ''fear_and_greed'' = None \<and> well_formed p q (JObj kvs) \<longrightarrow>
      (\<exists>fgi. load_fear_and_greed p q (JObj kvs) = Inr fgi
         \<and> score fgi = JNum 0 \<and> rating fgi = JStr ''N/A''
         \<and> previous_close fgi = JNum 0 \<and> previous_1_week fgi = JNum 0
         \<and> previous_1_month fgi = JNum 0 \<and> previous_1_year fgi = JNum 0
         \<and> timestamp fgi = None
         \<and> map ind_name (all_indicators fgi) =
             [''Junk Bond Demand'', ''Market Volatility (VIX)'', ''Put and Call Options'',
              ''Market Momentum (S&P 500)'', ''Stock Price Strength'', ''Stock Price Breadth'',
              ''Safe Haven Demand''])"
  proof (rule impI, elim conjE)
    assume "map_of kvs ''fear_and_greed'' = None" and "well_formed p q (JObj kvs)"
    then show "\<exists>fgi. load_fear_and_greed p q (JObj kvs) = Inr fgi
         \<and> score fgi = JNum 0 \<and> rating fgi = JStr ''N/A''
         \<and> previous_close fgi = JNum 0 \<and> previous_1_week fgi = JNum 0
         \<and> previous_1_month fgi = JNum 0 \<and> previous_1_year fgi = JNum 0
         \<and> timestamp fgi = None
         \<and> map ind_name (all_indicators fgi) =
             [''Junk Bond Demand'', ''Market Volatility (VIX)'', ''Put and Call Options'',
              ''Market Momentum (S&P 500)'', ''Stock Price Strength'', ''Stock Price Breadth'',
              ''Safe Haven Demand'']"
      by (rule load_fear_and_greed_missing_composite)
  qed
next
  show "\<forall>fgi d. load_fear_and_greed p q (JObj kvs) = Inr fgi
         \<and> map_of kvs ''fear_and_greed'' = Some (JObj d) \<longrightarrow>
         (map_of d ''score'' = None \<longrightarrow> score fgi = JNum 0)
       \<and> (map_of d ''rating'' = None \<longrightarrow> rating fgi = JStr ''N/A'')
       \<and> (map_of d ''previous_close'' = None \<longrightarrow> previous_close fgi = JNum 0)
       \<and> (map_of d ''previous_1_week'' = None \<longrightarrow> previous_1_week fgi = JNum 0)
       \<and> (map_of d ''previous_1_month'' = None \<longrightarrow> previous_1_month fgi = JNum 0)
       \<and> (map_of d ''previous_1_year'' = None \<longrightarrow> previous_1_year fgi = JNum 0)
       \<and> (map_of d ''timestamp'' = None \<longrightarrow> timestamp fgi = None)"
    by (intro allI, rule impI, elim conjE) (rule load_fear_and_greed_missing_fields)
next
  show "\<forall>k i d. load_indicator q (JObj kvs) k = Inr i \<and> map_of kvs k = Some (JObj d) \<longrightarrow>
         (map_of d ''score'' = None \<longrightarrow> ind_score i = JNum 0)
       \<and> (map_of d ''rating'' = None \<longrightarrow> ind_rating i = JStr ''N/A'')"
    by (intro allI, rule impI, elim conjE) (rule load_indicator_defaults)
qed

theorem missing_fear_and_greed_defaults_witness:
  "map_of [(''junk_bond_demand'', JObj [(''score'', JNum 12)])] ''fear_and_greed'' = None
   \<and> well_formed any_fromisoformat any_fromtimestamp
        (JObj [(''junk_bond_demand'', JObj [(''score'', JNum 12)])])
   \<and> (\<exists>fgi. load_fear_and_greed any_fromisoformat any_fromtimestamp
          (JObj [(''junk_bond_demand'', JObj [(''score'', JNum 12)])]) = Inr fgi
        \<and> score fgi = JNum 0 \<and> rating fgi = JStr ''N/A'' \<and> timestamp fgi = None
        \<and> length (all_indicators fgi) = 7)"
proof -
  have wf: "well_formed any_fromisoformat any_fromtimestamp
        (JObj [(''junk_bond_demand'', JObj [(''score'', JNum 12)])])"
    by (simp add: well_formed_def indicator_ok_def ms_timestamp_ok_def field_def
        INDICATOR_MAP_def)
  have no: "map_of [(''junk_bond_demand'', JObj [(''score'', JNum 12)])] ''fear_and_greed'' = None"
    by simp
  from missing_fear_and_greed_defaults [of "[(''junk_bond_demand'', JObj [(''score'', JNum 12)])]"
      any_fromisoformat any_fromtimestamp, THEN conjunct1, rule_format, OF conjI, OF no wf]
  obtain fgi where "load_fear_and_greed any_fromisoformat any_fromtimestamp
          (JObj [(''junk_bond_demand'', JObj [(''score'', JNum 12)])]) = Inr fgi
        \<and> score fgi = JNum 0 \<and> rating fgi = JStr ''N/A'' \<and> timestamp fgi = None
        \<and> length (all_indicators fgi) = 7"
    by (auto simp: all_indicators_def)
  then show ?thesis using wf no by (intro conjI exI [of _ fgi]) simp_all
qed

text \<open>
  A mapping with no \<open>fear_and_greed\<close> key on which the builder does not return: the
  indicator entry is a string, and the indicator's loader calls \<open>.get\<close> on it.
\<close>

theorem missing_fear_and_greed_counterexample:
  "map_of [(''junk_bond_demand'', JStr ''x'')] ''fear_and_greed'' = None
   \<and> load_fear_and_greed any_fromisoformat any_fromtimestamp
        (JObj [(''junk_bond_demand'', JStr ''x'')]) = Inl AttributeError"
  by (simp add: load_fear_and_greed_def load_indicator_def dict_index_def INDICATOR_MAP_def
      FearAndGreedIndicator_init_def load_from_data_def bind_err_def)

subsection \<open>Historical series\<close>

lemma load_fear_and_greed_series:
  assumes "load_fear_and_greed p q (JObj kvs) = Inr fgi"
    and "map_of kvs ''fear_and_greed_historical'' = Some (JObj h)"
    and "map_of h ''data'' = Some v"
  shows "historical_data fgi = v"
  using load_fear_and_greed_historical [OF assms(1)] assms(2,3) by auto

text \<open>
  C7. Historical-series round trip: when the document's \<open>fear_and_greed_historical\<close>
  entry is an object whose \<open>data\<close> field is a list of points, every snapshot built from
  the document holds exactly that list, and \<open>get_historical_data\<close> returns it: the same
  points in the same order. The builder does return on such a document when the document
  is well-formed.
\<close>

theorem historical_round_trip:
  assumes "map_of kvs ''fear_and_greed_historical'' = Some (JObj h)"
    and "map_of h ''data'' = Some (JArr pts)"
  shows "(\<forall>fgi. load_fear_and_greed p q (JObj kvs) = Inr fgi \<longrightarrow>
            get_historical_data fgi = JArr pts)
       \<and> (well_formed p q (JObj kvs) \<longrightarrow>
            (\<exists>fgi. load_fear_and_greed p q (JObj kvs) = Inr fgi
               \<and> get_historical_data fgi = JArr pts))"
proof (intro conjI allI)
  fix fgi
  show "load_fear_and_greed p q (JObj kvs) = Inr fgi \<longrightarrow> get_historical_data fgi = JArr pts"
  proof (rule impI)
    assume "load_fear_and_greed p q (JObj kvs) = Inr fgi"
    from load_fear_and_greed_series [OF this assms]
    show "get_historical_data fgi = JArr pts"
      by (simp add: get_historical_data_def)
  qed
next
  show "well_formed p q (JObj kvs) \<longrightarrow>
            (\<exists>fgi. load_fear_and_greed p q (JObj kvs) = Inr fgi
               \<and> get_historical_data fgi = JArr pts)"
  proof (rule impI)
    assume "well_formed p q (JObj kvs)"
    then have "\<not> isl (load_fear_and_greed p q (JObj kvs))"
      by (simp add: isl_load_fear_and_greed)
    then obtain fgi where fgi: "load_fear_and_greed p q (JObj kvs) = Inr fgi"
      by (cases "load_fear_and_greed p q (JObj kvs)") simp_all
    then have "load_fear_and_greed p q (JObj kvs) = Inr fgi \<and> get_historical_data fgi = JArr pts"
      using load_fear_and_greed_series [OF fgi assms] by (simp add: get_historical_data_def)
    then show "\<exists>fgi. load_fear_and_greed p q (JObj kvs) = Inr fgi
               \<and> get_historical_data fgi = JArr pts"
      by (intro exI [of _ fgi]) assumption
  qed
qed

theorem historical_round_trip_witness:
  "\<not> isl (load_fear_and_greed any_fromisoformat any_fromtimestamp example_document)
   \<and> get_historical_data
       (projr (load_fear_and_greed any_fromisoformat any_fromtimestamp example_document)) =
     JArr
       [JObj [(''x'', JNum 1705147200000), (''y'', JNum 70), (''rating'', JStr ''greed'')],
        JObj [(''x'', JNum 1705233600000), (''y'', JNum 71), (''rating'', JStr ''greed'')],
        JObj [(''x'', JNum 1705320000000), (''y'', JNum (723 / 10)), (''rating'', JStr ''greed'')]]"
proof -
  have wf: "well_formed any_fromisoformat any_fromtimestamp (JObj example_entries)"
    by (simp add: example_entries_def well_formed_def indicator_ok_def
        ms_timestamp_ok_def iso_timestamp_ok_def field_def INDICATOR_MAP_def
        any_fromisoformat_def any_fromtimestamp_def)
  have h: "map_of example_entries ''fear_and_greed_historical'' = Some (JObj [(''data'', JArr
       [JObj [(''x'', JNum 1705147200000), (''y'', JNum 70), (''rating'', JStr ''greed'')],
        JObj [(''x'', JNum 1705233600000), (''y'', JNum 71), (''rating'', JStr ''greed'')],
        JObj [(''x'', JNum 1705320000000), (''y'', JNum (723 / 10)), (''rating'', JStr ''greed'')]])])"
    by (simp add: example_entries_def)
  have d: "map_of [(''data'', JArr
       [JObj [(''x'', JNum 1705147200000), (''y'', JNum 70), (''rating'', JStr ''greed'')],
        JObj [(''x'', JNum 1705233600000), (''y'', JNum 71), (''rating'', JStr ''greed'')],
        JObj [(''x'', JNum 1705320000000), (''y'', JNum (723 / 10)), (''rating'', JStr ''greed'')]])]
      ''data'' = Some (JArr
       [JObj [(''x'', JNum 1705147200000), (''y'', JNum 70), (''rating'', JStr ''greed'')],
        JObj [(''x'', JNum 1705233600000), (''y'', JNum 71), (''rating'', JStr ''greed'')],
        JObj [(''x'', JNum 1705320000000), (''y'', JNum (723 / 10)), (''rating'', JStr ''greed'')]])"
    by simp
  from historical_round_trip [OF h d, of any_fromisoformat any_fromtimestamp, THEN conjunct2,
      rule_format, OF wf]
  show ?thesis
    by (auto simp: example_document_def)
qed

subsection \<open>The composite timestamp\<close>











subsection \<open>Indicator lookup\<close>

lemma get_indicator_find:
  "get_indicator u fgi nm =
     (case find (\<lambda>ind. sublist
                  (map (\<lambda>c. if c = CHR ''_'' \<or> c = CHR ''-'' then CHR '' '' else c)
                     (lower u nm))
                  (lower u (ind_name ind)))
             (all_indicators fgi) of
        None \<Rightarrow> ErrorReply (''Indicator '' @ [CHR 0x27] @ nm @ [CHR 0x27] @ '' not found'')
      | Some ind \<Rightarrow>
          IndicatorReply (ind_name ind) (ind_score ind) (ind_rating ind) (ind_timestamp ind))"
proof -
  have "replace ''-'' '' '' (replace ''_'' '' '' (lower u nm)) =
      map (\<lambda>c. if c = CHR ''_'' \<or> c = CHR ''-'' then CHR '' '' else c) (lower u nm)"
    by (simp add: replace_char)
  then show ?thesis
    by (simp add: get_indicator_def get_indicator_loop_find str_in_sublist)
qed

lemma built_indicator_names:
  assumes "load_fear_and_greed p q doc = Inr fgi"
  shows "ind_name (junk_bond_demand fgi) = ''Junk Bond Demand''"
    and "ind_name (market_volatility fgi) = ''Market Volatility (VIX)''"
    and "ind_name (put_call_options fgi) = ''Put and Call Options''"
    and "ind_name (market_momentum fgi) = ''Market Momentum (S&P 500)''"
    and "ind_name (stock_price_strength fgi) = ''Stock Price Strength''"
    and "ind_name (stock_price_breadth fgi) = ''Stock Price Breadth''"
    and "ind_name (safe_haven_demand fgi) = ''Safe Haven Demand''"
  using all_indicators_names [OF assms] by (simp_all add: all_indicators_def)

lemma lower_names:
  "lower u ''Junk Bond Demand'' = ''junk bond demand''"
  "lower u ''Market Volatility (VIX)'' = ''market volatility (vix)''"
  "lower u ''Put and Call Options'' = ''put and call options''"
  "lower u ''Market Momentum (S&P 500)'' = ''market momentum (s&p 500)''"
  "lower u ''Stock Price Strength'' = ''stock price strength''"
  "lower u ''Stock Price Breadth'' = ''stock price breadth''"
  "lower u ''Safe Haven Demand'' = ''safe haven demand''"
  by (simp_all add: lower_def is_ascii_def ascii_lower_def)

lemma get_indicator_vix:
  assumes "load_fear_and_greed p q doc = Inr fgi"
  shows "get_indicator u fgi ''vix'' =
     IndicatorReply ''Market Volatility (VIX)'' (ind_score (market_volatility fgi))
       (ind_rating (market_volatility fgi)) (ind_timestamp (market_volatility fgi))"
proof -
  have nl: "replace ''-'' '' '' (replace ''_'' '' '' (lower u ''vix'')) = ''vix''"
    by (simp add: replace_char lower_def is_ascii_def ascii_lower_def)
  show ?thesis
    by (simp add: get_indicator_def nl all_indicators_def built_indicator_names [OF assms]
        lower_names)
qed

lemma get_indicator_nonexistent:
  assumes "load_fear_and_greed p q doc = Inr fgi"
  shows "get_indicator u fgi ''nonexistent_xyz'' =
     ErrorReply ''Indicator 'nonexistent_xyz' not found''"
proof -
  have nl: "replace ''-'' '' '' (replace ''_'' '' '' (lower u ''nonexistent_xyz'')) =
      ''nonexistent xyz''"
    by (simp add: replace_char lower_def is_ascii_def ascii_lower_def)
  show ?thesis
    by (simp add: get_indicator_def nl all_indicators_def built_indicator_names [OF assms]
        lower_names)
qed

text \<open>
  The model follows the code outside ASCII too. The query \<open>stoc\<close> followed by the Kelvin
  sign (U+212A, the bytes E2 84 AA) is lower-cased by Python to \<open>stock\<close>: with a
  \<open>unicode_lower\<close> that says so, the lookup finds "Stock Price Strength".
\<close>

lemma get_indicator_kelvin_sign:
  assumes "load_fear_and_greed p q doc = Inr fgi"
    and "u (''stoc'' @ [CHR 0xE2, CHR 0x84, CHR 0xAA]) 4 = ''k''"
    and "u (''stoc'' @ [CHR 0xE2, CHR 0x84, CHR 0xAA]) 5 = []"
    and "u (''stoc'' @ [CHR 0xE2, CHR 0x84, CHR 0xAA]) 6 = []"
  shows "get_indicator u fgi (''stoc'' @ [CHR 0xE2, CHR 0x84, CHR 0xAA]) =
     IndicatorReply ''Stock Price Strength'' (ind_score (stock_price_strength fgi))
       (ind_rating (stock_price_strength fgi)) (ind_timestamp (stock_price_strength fgi))"
proof -
  have "lower u (''stoc'' @ [CHR 0xE2, CHR 0x84, CHR 0xAA]) = ''stock''"
    using assms(2-4)
    by (simp add: lower_def is_ascii_def ascii_lower_def eval_nat_numeral)
  then have nl: "replace ''-'' '' ''
      (replace ''_'' '' '' (lower u (''stoc'' @ [CHR 0xE2, CHR 0x84, CHR 0xAA]))) = ''stock''"
    by (simp add: replace_char)
  show ?thesis
    by (simp add: get_indicator_def nl all_indicators_def built_indicator_names [OF assms(1)]
        lower_names del: append.simps)
qed

text \<open>
  C6. Fuzzy indicator lookup: the query is lower-cased and its underscores and hyphens
  become spaces; the reply is the first indicator, in the order of \<open>all_indicators\<close>,
  whose lower-cased name contains the normalized query as a contiguous substring, and
  the "not found" reply (a value, not an exception) when there is none. Lower-casing is
  Python's: the table \<open>A\<close>..\<open>Z\<close> to \<open>a\<close>..\<open>z\<close> on ASCII text, and whatever the
  interpreter's Unicode tables say elsewhere. On every built snapshot the query \<open>vix\<close>
  finds the indicator named "Market Volatility (VIX)" and the query \<open>nonexistent_xyz\<close>
  is not found.
\<close>

theorem get_indicator_fuzzy:
  "get_indicator u fgi nm =
     (case find (\<lambda>ind. sublist
                  (map (\<lambda>c. if c = CHR ''_'' \<or> c = CHR ''-'' then CHR '' '' else c)
                     (lower u nm))
                  (lower u (ind_name ind)))
             (all_indicators fgi) of
        None \<Rightarrow> ErrorReply (''Indicator '' @ [CHR 0x27] @ nm @ [CHR 0x27] @ '' not found'')
      | Some ind \<Rightarrow>
          IndicatorReply (ind_name ind) (ind_score ind) (ind_rating ind) (ind_timestamp ind))
   \<and> (\<forall>s. (\<forall>c \<in> set s. is_ascii c) \<longrightarrow> lower u s = map ascii_lower s)
   \<and> (\<forall>p q doc. load_fear_and_greed p q doc = Inr fgi \<longrightarrow>
          get_indicator u fgi ''vix'' =
            IndicatorReply ''Market Volatility (VIX)'' (ind_score (market_volatility fgi))
              (ind_rating (market_volatility fgi)) (ind_timestamp (market_volatility fgi))
        \<and> get_indicator u fgi ''nonexistent_xyz'' =
            ErrorReply ''Indicator 'nonexistent_xyz' not found'')"
proof (intro conjI allI)
  show "get_indicator u fgi nm =
     (case find (\<lambda>ind. sublist
                  (map (\<lambda>c. if c = CHR ''_'' \<or> c = CHR ''-'' then CHR '' '' else c)
                     (lower u nm))
                  (lower u (ind_name ind)))
             (all_indicators fgi) of
        None \<Rightarrow> ErrorReply (''Indicator '' @ [CHR 0x27] @ nm @ [CHR 0x27] @ '' not found'')
      | Some ind \<Rightarrow>
          IndicatorReply (ind_name ind) (ind_score ind) (ind_rating ind) (ind_timestamp ind))"
    by (rule get_indicator_find)
next
  fix s
  show "(\<forall>c \<in> set s. is_ascii c) \<longrightarrow> lower u s = map ascii_lower s"
    by (rule impI) (rule lower_ascii)
next
  fix p :: "string \<Rightarrow> py_error + 'a" and q doc
  show "load_fear_and_greed p q doc = Inr fgi \<longrightarrow>
          get_indicator u fgi ''vix'' =
            IndicatorReply ''Market Volatility (VIX)'' (ind_score (market_volatility fgi))
              (ind_rating (market_volatility fgi)) (ind_timestamp (market_volatility fgi))
        \<and> get_indicator u fgi ''nonexistent_xyz'' =
            ErrorReply ''Indicator 'nonexistent_xyz' not found''"
  proof (rule impI, rule conjI)
    assume a: "load_fear_and_greed p q doc = Inr fgi"
    show "get_indicator u fgi ''vix'' =
            IndicatorReply ''Market Volatility (VIX)'' (ind_score (market_volatility fgi))
              (ind_rating (market_volatility fgi)) (ind_timestamp (market_volatility fgi))"
      by (rule get_indicator_vix [OF a])
    show "get_indicator u fgi ''nonexistent_xyz'' =
            ErrorReply ''Indicator 'nonexistent_xyz' not found''"
      by (rule get_indicator_nonexistent [OF a])
  qed
qed

theorem get_indicator_fuzzy_witness:
  "\<not> isl (load_fear_and_greed any_fromisoformat any_fromtimestamp example_document)
   \<and> get_indicator no_unicode_lower
       (projr (load_fear_and_greed any_fromisoformat any_fromtimestamp example_document))
       ''vix'' =
     IndicatorReply ''Market Volatility (VIX)'' (JNum 50) (JStr ''neutral'')
       (Some (FromTimestamp 1705320000))
   \<and> get_indicator no_unicode_lower
       (projr (load_fear_and_greed any_fromisoformat any_fromtimestamp example_document))
       ''nonexistent_xyz'' = ErrorReply ''Indicator 'nonexistent_xyz' not found''
   \<and> lower no_unicode_lower ''VIX-'' = ''vix-''"
proof -
  have ok: "\<not> isl (load_fear_and_greed any_fromisoformat any_fromtimestamp example_document)"
    by (simp add: example_document_def example_entries_def load_fear_and_greed_def
        load_indicator_def dict_index_def INDICATOR_MAP_def FearAndGreedIndicator_init_def
        load_from_data_def bind_err_def any_fromisoformat_def any_fromtimestamp_def
        replace.simps)
  then have h: "load_fear_and_greed any_fromisoformat any_fromtimestamp example_document =
      Inr (projr (load_fear_and_greed any_fromisoformat any_fromtimestamp example_document))"
    by simp
  have mv: "market_volatility
      (projr (load_fear_and_greed any_fromisoformat any_fromtimestamp example_document)) =
      \<lparr>ind_name = ''Market Volatility (VIX)'', ind_score = JNum 50,
        ind_rating = JStr ''neutral'', ind_timestamp = Some (FromTimestamp 1705320000),
        ind_historical_data = JArr []\<rparr>"
    by (simp add: example_document_def example_entries_def load_fear_and_greed_def
        load_indicator_def dict_index_def INDICATOR_MAP_def FearAndGreedIndicator_init_def
        load_from_data_def bind_err_def any_fromisoformat_def any_fromtimestamp_def
        replace.simps)
  have asc: "\<forall>c \<in> set ''VIX-''. is_ascii c"
    by (simp add: is_ascii_def)
  note res = get_indicator_fuzzy [of no_unicode_lower
      "projr (load_fear_and_greed any_fromisoformat any_fromtimestamp example_document)"]
  from res [THEN conjunct2, THEN conjunct2, rule_format, OF h] ok mv
    res [THEN conjunct2, THEN conjunct1, THEN spec [where x = "''VIX-''"], THEN mp, OF asc]
  show ?thesis by (simp add: ascii_lower_def)
qed

subsection \<open>History with a limit\<close>



subsection \<open>The fetch\<close>








end
